theory Spec2Isabelle
  imports Main
begin

section \<open>Syntax trees and type facts\<close>

text \<open>
  The analyzer works on Go syntax trees (package go/ast) and on the facts of the type
  checker (package go/types). The node kinds the analyzer tells apart are constructors of
  their own; every other kind of expression or statement is \<open>OtherExpr\<close> or
  \<open>OtherStmt\<close>, which keeps the children that \<open>ast.Inspect\<close> would visit.
  Statements and identifiers carry their source position, so the pointer comparisons of
  the source (\<open>stmt == path[i-1]\<close>) are equalities of values here.
\<close>

datatype token = LOR | LAND | EQL | NEQ | LSS | GTR | NOT | ADD | ASSIGN | DEFINE

datatype ident = Ident (Name: string) (NamePos: nat)

datatype expr =
    IdentExpr ident
  | BinaryExpr expr token expr
  | CallExpr expr "expr list"
  | SelectorExpr expr ident
  | FuncLit stmt
  | OtherExpr "expr list"
and stmt =
    AssignStmt "expr list" nat token "expr list"
  | IfStmt nat "stmt option" expr stmt "stmt option"
  | ReturnStmt nat "expr list"
  | BlockStmt nat "stmt list"
  | CaseClause nat "expr list" "stmt list"
  | CommClause nat "stmt option" "stmt list"
  | OtherStmt nat "expr list" "stmt list"

text \<open>
  An element of the path that \<open>astutil.PathEnclosingInterval\<close> returns: a statement, an
  expression, or a node of another kind (file, function declaration, field list).
\<close>

datatype node = StmtNode stmt | ExprNode expr | OtherNode nat

text \<open>
  A \<open>types.Object\<close>: the object that \<open>types.Universe.Lookup("nil")\<close> returns, or a
  declaration. A nil object is \<open>None\<close>.
\<close>

datatype object = UniverseNil | Declared nat

datatype gotype = Signature (Results: "gotype list") | TypeName string

text \<open>
  The facts that \<open>run\<close> reads through its \<open>*analysis.Pass\<close>: the object of an
  identifier (\<open>pass.TypesInfo.ObjectOf\<close>), the type of an expression
  (\<open>pass.TypesInfo.TypeOf\<close>, nil is \<open>None\<close>), whether a type implements the
  predeclared interface \<open>error\<close> (\<open>types.Implements(t, errorType)\<close>), the nodes in the
  order in which the inspector visits them, and the path from a node up to its file
  (\<open>astutil.PathEnclosingInterval\<close> on the file that \<open>findFile\<close> returns; a nil path is
  the empty list), innermost node first, and the name of the file a node is in
  (\<open>pass.Fset.File(node.Pos()).Name()\<close>, \<open>None\<close> when the file set has no file for it).
\<close>

record pass =
  ObjectOf :: "ident \<Rightarrow> object option"
  TypeOf :: "expr \<Rightarrow> gotype option"
  Implements :: "gotype \<Rightarrow> bool"
  Preorder :: "node list"
  PathEnclosingInterval :: "node \<Rightarrow> node list"
  FileName :: "node \<Rightarrow> string option"

record diagnostic =
  Pos :: nat
  Message :: string

section \<open>The identifier resolver\<close>

fun isIdent :: "pass \<Rightarrow> expr \<Rightarrow> ident \<Rightarrow> bool" where
  "isIdent pass (IdentExpr ident) targetIdent =
     (ObjectOf pass ident = ObjectOf pass targetIdent)"
| "isIdent pass _ targetIdent = False"

fun isNil :: "pass \<Rightarrow> expr \<Rightarrow> bool" where
  "isNil pass (IdentExpr ident) = (ObjectOf pass ident = Some UniverseNil)"
| "isNil pass _ = False"

section \<open>The detector of error-producing assignments\<close>

text \<open>
  The loop \<open>for i := 0; i < results.Len(); i++\<close> of \<open>findReturnedError\<close>; the three
  snapshots of the analyzer have the same text for this function.
\<close>

function findReturnedError_loop ::
  "pass \<Rightarrow> gotype list \<Rightarrow> expr list \<Rightarrow> nat \<Rightarrow> ident option" where
  "findReturnedError_loop pass results lhs i =
     (if i < length results then
        (if Implements pass (results ! i) \<and> i < length lhs then
           (case lhs ! i of
              IdentExpr ident \<Rightarrow>
                if Name ident \<noteq> ''_'' then Some ident
                else findReturnedError_loop pass results lhs (i + 1)
            | _ \<Rightarrow> findReturnedError_loop pass results lhs (i + 1))
         else findReturnedError_loop pass results lhs (i + 1))
      else None)"
  by pat_completeness auto
termination
  by (relation "measure (\<lambda>(pass, results, lhs, i). length results - i)") auto

declare findReturnedError_loop.simps [simp del]

fun findReturnedError :: "pass \<Rightarrow> stmt \<Rightarrow> expr \<Rightarrow> ident option" where
  "findReturnedError pass (AssignStmt lhs p tok rhs) (CallExpr fn args) =
     (case TypeOf pass fn of
        Some (Signature results) \<Rightarrow>
          if length results = 0 then None
          else findReturnedError_loop pass results lhs 0
      | _ \<Rightarrow> None)"
| "findReturnedError pass _ _ = None"

text \<open>
  A left-hand side that is an identifier other than the discard placeholder \<open>_\<close>; used
  in the properties of the detector, not by the detector.
\<close>

fun namedIdent :: "expr \<Rightarrow> bool" where
  "namedIdent (IdentExpr ident) = (Name ident \<noteq> ''_'')"
| "namedIdent _ = False"

section \<open>The condition classifier\<close>

text \<open>
  \<open>checkCondition\<close> as in errcheckif/errcheckif.go and in the snapshot with the
  if-initializer and return handling (unnamed/part_000): only \<open>||\<close> is followed into
  its operands.
\<close>

fun checkCondition :: "pass \<Rightarrow> expr \<Rightarrow> ident \<Rightarrow> bool" where
  "checkCondition pass (BinaryExpr x op y) errIdent =
     (if op = LOR then
        checkCondition pass x errIdent \<or> checkCondition pass y errIdent
      else if op = NEQ \<or> op = EQL then
        (if isIdent pass x errIdent \<and> isNil pass y then True
         else if isNil pass x \<and> isIdent pass y errIdent then True
         else False)
      else False)"
| "checkCondition pass (CallExpr fn args) errIdent =
     (case fn of
        SelectorExpr sx sel \<Rightarrow>
          (case sx of
             IdentExpr pkgIdent \<Rightarrow>
               if Name pkgIdent \<noteq> ''errors'' then False
               else if Name sel \<noteq> ''Is'' \<and> Name sel \<noteq> ''As'' then False
               else (case args of
                       [] \<Rightarrow> False
                     | arg0 # _ \<Rightarrow> if isIdent pass arg0 errIdent then True else False)
           | _ \<Rightarrow> False)
      | _ \<Rightarrow> False)"
| "checkCondition pass _ errIdent = False"

text \<open>
  \<open>checkCondition\<close> as in the snapshot kept in readme.md: \<open>&&\<close> is followed into its
  operands in the same way as \<open>||\<close>.
\<close>

fun checkCondition_readme :: "pass \<Rightarrow> expr \<Rightarrow> ident \<Rightarrow> bool" where
  "checkCondition_readme pass (BinaryExpr x op y) errIdent =
     (if op = LOR \<or> op = LAND then
        checkCondition_readme pass x errIdent \<or> checkCondition_readme pass y errIdent
      else if op = NEQ \<or> op = EQL then
        (if isIdent pass x errIdent \<and> isNil pass y then True
         else if isNil pass x \<and> isIdent pass y errIdent then True
         else False)
      else False)"
| "checkCondition_readme pass (CallExpr fn args) errIdent =
     (case fn of
        SelectorExpr sx sel \<Rightarrow>
          (case sx of
             IdentExpr pkgIdent \<Rightarrow>
               if Name pkgIdent \<noteq> ''errors'' then False
               else if Name sel \<noteq> ''Is'' \<and> Name sel \<noteq> ''As'' then False
               else (case args of
                       [] \<Rightarrow> False
                     | arg0 # _ \<Rightarrow> if isIdent pass arg0 errIdent then True else False)
           | _ \<Rightarrow> False)
      | _ \<Rightarrow> False)"
| "checkCondition_readme pass _ errIdent = False"

section \<open>Reassignment\<close>

text \<open>
  The test of one left-hand side in the callback of \<open>isIdentifierReassigned\<close>: an
  identifier whose object is the target object.
\<close>

fun lhsIsTarget :: "pass \<Rightarrow> object \<Rightarrow> expr \<Rightarrow> bool" where
  "lhsIsTarget pass targetObj (IdentExpr ident) = (ObjectOf pass ident = Some targetObj)"
| "lhsIsTarget pass targetObj _ = False"

text \<open>
  \<open>ast.Inspect\<close> with the callback of \<open>isIdentifierReassigned\<close>. The callback sets the
  flag \<open>reassigned\<close> and never clears it, so the flag after the walk is the disjunction
  over the visited nodes. At an assignment that binds the target the callback returns
  false and the walk skips the children of that assignment; at every other node it
  returns true and the walk goes on into the children.
\<close>

fun inspectExpr :: "pass \<Rightarrow> object \<Rightarrow> expr \<Rightarrow> bool"
  and inspectStmt :: "pass \<Rightarrow> object \<Rightarrow> stmt \<Rightarrow> bool" where
  "inspectExpr pass targetObj (IdentExpr ident) = False"
| "inspectExpr pass targetObj (BinaryExpr x op y) =
     (inspectExpr pass targetObj x \<or> inspectExpr pass targetObj y)"
| "inspectExpr pass targetObj (CallExpr fn args) =
     (inspectExpr pass targetObj fn \<or> list_ex (inspectExpr pass targetObj) args)"
| "inspectExpr pass targetObj (SelectorExpr x sel) = inspectExpr pass targetObj x"
| "inspectExpr pass targetObj (FuncLit body) = inspectStmt pass targetObj body"
| "inspectExpr pass targetObj (OtherExpr es) = list_ex (inspectExpr pass targetObj) es"
| "inspectStmt pass targetObj (AssignStmt lhs p tok rhs) =
     (if list_ex (lhsIsTarget pass targetObj) lhs then True
      else list_ex (inspectExpr pass targetObj) lhs
         \<or> list_ex (inspectExpr pass targetObj) rhs)"
| "inspectStmt pass targetObj (IfStmt p init cond body els) =
     ((case init of None \<Rightarrow> False | Some s \<Rightarrow> inspectStmt pass targetObj s)
      \<or> inspectExpr pass targetObj cond
      \<or> inspectStmt pass targetObj body
      \<or> (case els of None \<Rightarrow> False | Some s \<Rightarrow> inspectStmt pass targetObj s))"
| "inspectStmt pass targetObj (ReturnStmt p results) =
     list_ex (inspectExpr pass targetObj) results"
| "inspectStmt pass targetObj (BlockStmt p list) =
     list_ex (inspectStmt pass targetObj) list"
| "inspectStmt pass targetObj (CaseClause p list body) =
     (list_ex (inspectExpr pass targetObj) list
      \<or> list_ex (inspectStmt pass targetObj) body)"
| "inspectStmt pass targetObj (CommClause p comm body) =
     ((case comm of None \<Rightarrow> False | Some s \<Rightarrow> inspectStmt pass targetObj s)
      \<or> list_ex (inspectStmt pass targetObj) body)"
| "inspectStmt pass targetObj (OtherStmt p es ss) =
     (list_ex (inspectExpr pass targetObj) es
      \<or> list_ex (inspectStmt pass targetObj) ss)"

definition isIdentifierReassigned :: "pass \<Rightarrow> stmt \<Rightarrow> ident \<Rightarrow> bool" where
  "isIdentifierReassigned pass stmt errIdent =
     (case ObjectOf pass errIdent of
        None \<Rightarrow> False
      | Some targetObj \<Rightarrow> inspectStmt pass targetObj stmt)"

section \<open>Handlers\<close>

text \<open>\<open>isStmtAValidHandler\<close> of unnamed/part_000: an if statement or a return statement.\<close>

fun resultIsTarget :: "pass \<Rightarrow> ident \<Rightarrow> expr \<Rightarrow> bool" where
  "resultIsTarget pass errIdent (IdentExpr retIdent) =
     (ObjectOf pass retIdent = ObjectOf pass errIdent)"
| "resultIsTarget pass errIdent _ = False"

fun isStmtAValidHandler :: "pass \<Rightarrow> stmt \<Rightarrow> ident \<Rightarrow> bool" where
  "isStmtAValidHandler pass (IfStmt p init cond body els) errIdent =
     checkCondition pass cond errIdent"
| "isStmtAValidHandler pass (ReturnStmt p results) errIdent =
     list_ex (resultIsTarget pass errIdent) results"
| "isStmtAValidHandler pass _ errIdent = False"

fun isStmtAValidHandler_readme :: "pass \<Rightarrow> stmt \<Rightarrow> ident \<Rightarrow> bool" where
  "isStmtAValidHandler_readme pass (IfStmt p init cond body els) errIdent =
     checkCondition_readme pass cond errIdent"
| "isStmtAValidHandler_readme pass (ReturnStmt p results) errIdent =
     list_ex (resultIsTarget pass errIdent) results"
| "isStmtAValidHandler_readme pass _ errIdent = False"

text \<open>\<open>checkIfStmtHandlesError\<close> of errcheckif/errcheckif.go: an if statement only.\<close>

fun checkIfStmtHandlesError :: "pass \<Rightarrow> stmt \<Rightarrow> ident \<Rightarrow> bool" where
  "checkIfStmtHandlesError pass (IfStmt p init cond body els) errIdent =
     checkCondition pass cond errIdent"
| "checkIfStmtHandlesError pass _ errIdent = False"

section \<open>The if-initializer form\<close>

definition isHandledInIfInit :: "pass \<Rightarrow> ident \<Rightarrow> node list \<Rightarrow> bool" where
  "isHandledInIfInit pass errIdent path =
     (if length path < 2 then False
      else (case path ! 1 of
              StmtNode (IfStmt p init cond body els) \<Rightarrow>
                (case init of
                   None \<Rightarrow> False
                 | Some s \<Rightarrow>
                     if StmtNode s \<noteq> path ! 0 then False
                     else checkCondition pass cond errIdent)
            | _ \<Rightarrow> False))"

definition isHandledInIfInit_readme :: "pass \<Rightarrow> ident \<Rightarrow> node list \<Rightarrow> bool" where
  "isHandledInIfInit_readme pass errIdent path =
     (if length path < 2 then False
      else (case path ! 1 of
              StmtNode (IfStmt p init cond body els) \<Rightarrow>
                (case init of
                   None \<Rightarrow> False
                 | Some s \<Rightarrow>
                     if StmtNode s \<noteq> path ! 0 then False
                     else checkCondition_readme pass cond errIdent)
            | _ \<Rightarrow> False))"

section \<open>The scan of the statements that follow\<close>

text \<open>
  The loops return \<open>Some b\<close> where the source returns \<open>b\<close> from the function, and
  \<open>None\<close> where the loop ends and the function goes on.

  \<open>isHandledInSubsequentStatement\<close> of unnamed/part_000. The innermost loop
  \<open>for j := stmtIdx + 1; j < len(block.List); j++\<close> runs over the statements after the
  one found.
\<close>

fun subsequentLoop :: "pass \<Rightarrow> ident \<Rightarrow> stmt list \<Rightarrow> bool option" where
  "subsequentLoop pass errIdent [] = None"
| "subsequentLoop pass errIdent (subsequentStmt # rest) =
     (if isStmtAValidHandler pass subsequentStmt errIdent then Some True
      else if isIdentifierReassigned pass subsequentStmt errIdent then Some False
      else subsequentLoop pass errIdent rest)"

text \<open>
  \<open>for stmtIdx, stmt := range block.List\<close>, with \<open>prev\<close> for \<open>path[i-1]\<close>: the scan
  starts after the first statement equal to \<open>prev\<close>, and \<open>break\<close> leaves the loop.
\<close>

fun blockListLoop :: "pass \<Rightarrow> ident \<Rightarrow> node \<Rightarrow> stmt list \<Rightarrow> bool option" where
  "blockListLoop pass errIdent prev [] = None"
| "blockListLoop pass errIdent prev (stmt # rest) =
     (if StmtNode stmt = prev then subsequentLoop pass errIdent rest
      else blockListLoop pass errIdent prev rest)"

text \<open>
  \<open>for i, node := range path\<close>. The argument \<open>prev\<close> is \<open>path[i-1]\<close>, and \<open>None\<close> at
  \<open>i = 0\<close>, where the source skips the block.
\<close>

fun pathLoop :: "pass \<Rightarrow> ident \<Rightarrow> node option \<Rightarrow> node list \<Rightarrow> bool" where
  "pathLoop pass errIdent prev [] = False"
| "pathLoop pass errIdent prev (node # rest) =
     (case node of
        StmtNode (BlockStmt p list) \<Rightarrow>
          (case prev of
             None \<Rightarrow> pathLoop pass errIdent (Some node) rest
           | Some pv \<Rightarrow>
               (case blockListLoop pass errIdent pv list of
                  Some b \<Rightarrow> b
                | None \<Rightarrow> pathLoop pass errIdent (Some node) rest))
      | _ \<Rightarrow> pathLoop pass errIdent (Some node) rest)"

definition isHandledInSubsequentStatement :: "pass \<Rightarrow> ident \<Rightarrow> node list \<Rightarrow> bool" where
  "isHandledInSubsequentStatement pass errIdent path = pathLoop pass errIdent None path"

text \<open>
  \<open>isErrorHandled\<close> of errcheckif/errcheckif.go: the same walk with
  \<open>checkIfStmtHandlesError\<close>, and with no \<open>break\<close> after the scan.
\<close>

fun subsequentLoop_errcheckif :: "pass \<Rightarrow> ident \<Rightarrow> stmt list \<Rightarrow> bool option" where
  "subsequentLoop_errcheckif pass errIdent [] = None"
| "subsequentLoop_errcheckif pass errIdent (subsequentStmt # rest) =
     (if checkIfStmtHandlesError pass subsequentStmt errIdent then Some True
      else if isIdentifierReassigned pass subsequentStmt errIdent then Some False
      else subsequentLoop_errcheckif pass errIdent rest)"

fun blockListLoop_errcheckif ::
  "pass \<Rightarrow> ident \<Rightarrow> node option \<Rightarrow> stmt list \<Rightarrow> bool option" where
  "blockListLoop_errcheckif pass errIdent prev [] = None"
| "blockListLoop_errcheckif pass errIdent prev (stmt # rest) =
     (if prev \<noteq> None \<and> Some (StmtNode stmt) = prev then
        (case subsequentLoop_errcheckif pass errIdent rest of
           Some b \<Rightarrow> Some b
         | None \<Rightarrow> blockListLoop_errcheckif pass errIdent prev rest)
      else blockListLoop_errcheckif pass errIdent prev rest)"

fun pathLoop_errcheckif :: "pass \<Rightarrow> ident \<Rightarrow> node option \<Rightarrow> node list \<Rightarrow> bool" where
  "pathLoop_errcheckif pass errIdent prev [] = False"
| "pathLoop_errcheckif pass errIdent prev (node # rest) =
     (case node of
        StmtNode (BlockStmt p list) \<Rightarrow>
          (case blockListLoop_errcheckif pass errIdent prev list of
             Some b \<Rightarrow> b
           | None \<Rightarrow> pathLoop_errcheckif pass errIdent (Some node) rest)
      | _ \<Rightarrow> pathLoop_errcheckif pass errIdent (Some node) rest)"

definition isErrorHandled :: "pass \<Rightarrow> ident \<Rightarrow> node list \<Rightarrow> bool" where
  "isErrorHandled pass errIdent path = pathLoop_errcheckif pass errIdent None path"

text \<open>
  The snapshot in readme.md takes the statement list from \<open>getStmtList\<close> (nil is
  \<open>None\<close>), starts at \<open>i = 1\<close>, and returns false after the scan of the first list
  that holds \<open>path[i-1]\<close>.
\<close>

fun getStmtList :: "node \<Rightarrow> stmt list option" where
  "getStmtList (StmtNode (BlockStmt p list)) = Some list"
| "getStmtList (StmtNode (CaseClause p list body)) = Some body"
| "getStmtList (StmtNode (CommClause p comm body)) = Some body"
| "getStmtList _ = None"

fun subsequentLoop_readme :: "pass \<Rightarrow> ident \<Rightarrow> stmt list \<Rightarrow> bool option" where
  "subsequentLoop_readme pass errIdent [] = None"
| "subsequentLoop_readme pass errIdent (subsequentStmt # rest) =
     (if isStmtAValidHandler_readme pass subsequentStmt errIdent then Some True
      else if isIdentifierReassigned pass subsequentStmt errIdent then Some False
      else subsequentLoop_readme pass errIdent rest)"

fun stmtListLoop_readme :: "pass \<Rightarrow> ident \<Rightarrow> node \<Rightarrow> stmt list \<Rightarrow> bool option" where
  "stmtListLoop_readme pass errIdent prev [] = None"
| "stmtListLoop_readme pass errIdent prev (stmt # rest) =
     (if StmtNode stmt = prev then
        (case subsequentLoop_readme pass errIdent rest of
           Some b \<Rightarrow> Some b
         | None \<Rightarrow> Some False)
      else stmtListLoop_readme pass errIdent prev rest)"

text \<open>\<open>for i := 1; i < len(path); i++\<close>, with \<open>prev\<close> for \<open>path[i-1]\<close>.\<close>

fun pathLoop_readme :: "pass \<Rightarrow> ident \<Rightarrow> node \<Rightarrow> node list \<Rightarrow> bool" where
  "pathLoop_readme pass errIdent prev [] = False"
| "pathLoop_readme pass errIdent prev (node # rest) =
     (case getStmtList node of
        None \<Rightarrow> pathLoop_readme pass errIdent node rest
      | Some stmtList \<Rightarrow>
          (case stmtListLoop_readme pass errIdent prev stmtList of
             Some b \<Rightarrow> b
           | None \<Rightarrow> pathLoop_readme pass errIdent node rest))"

fun isHandledInSubsequentStatement_readme :: "pass \<Rightarrow> ident \<Rightarrow> node list \<Rightarrow> bool" where
  "isHandledInSubsequentStatement_readme pass errIdent [] = False"
| "isHandledInSubsequentStatement_readme pass errIdent (node0 # rest) =
     pathLoop_readme pass errIdent node0 rest"

section \<open>The pass\<close>

definition Reportf :: "nat \<Rightarrow> string \<Rightarrow> diagnostic" where
  "Reportf pos msg = \<lparr>Pos = pos, Message = msg\<rparr>"

definition quoted :: "string \<Rightarrow> string" where
  "quoted s = CHR 0x27 # s @ [CHR 0x27]"

text \<open>
  The callback that \<open>run\<close> gives to \<open>inspector.Preorder\<close>, here for one node; the
  diagnostics it reports are its result. This is \<open>run\<close> of unnamed/part_000.
\<close>

definition runNode :: "pass \<Rightarrow> node \<Rightarrow> diagnostic list" where
  "runNode pass node =
     (case node of
        StmtNode (AssignStmt lhs p tok rhs) \<Rightarrow>
          (case rhs of
             [CallExpr fn args] \<Rightarrow>
               (case findReturnedError pass (AssignStmt lhs p tok rhs) (CallExpr fn args) of
                  None \<Rightarrow> []
                | Some errIdent \<Rightarrow>
                    (let path = PathEnclosingInterval pass node in
                     if path = [] then []
                     else if isHandledInIfInit pass errIdent path then []
                     else if \<not> isHandledInSubsequentStatement pass errIdent path then
                       [Reportf (NamePos errIdent)
                          (''error '' @ quoted (Name errIdent) @ '' is not checked or returned'')]
                     else []))
           | _ \<Rightarrow> [])
      | _ \<Rightarrow> [])"

definition run :: "pass \<Rightarrow> diagnostic list" where
  "run pass = concat (map (runNode pass) (Preorder pass))"

text \<open>\<open>run\<close> of errcheckif/errcheckif.go: no if-initializer form, another message.\<close>

definition runNode_errcheckif :: "pass \<Rightarrow> node \<Rightarrow> diagnostic list" where
  "runNode_errcheckif pass node =
     (case node of
        StmtNode (AssignStmt lhs p tok rhs) \<Rightarrow>
          (case rhs of
             [CallExpr fn args] \<Rightarrow>
               (case findReturnedError pass (AssignStmt lhs p tok rhs) (CallExpr fn args) of
                  None \<Rightarrow> []
                | Some errIdent \<Rightarrow>
                    (let path = PathEnclosingInterval pass node in
                     if path = [] then []
                     else if \<not> isErrorHandled pass errIdent path then
                       [Reportf (NamePos errIdent)
                          (''error '' @ quoted (Name errIdent) @ '' is not checked with ''
                           @ quoted ''!= nil'' @ '', '' @ quoted ''== nil'' @ '', ''
                           @ quoted ''errors.Is'' @ '', or '' @ quoted ''errors.As'')]
                     else []))
           | _ \<Rightarrow> [])
      | _ \<Rightarrow> [])"

definition run_errcheckif :: "pass \<Rightarrow> diagnostic list" where
  "run_errcheckif pass = concat (map (runNode_errcheckif pass) (Preorder pass))"

text \<open>
  \<open>run\<close> of the snapshot in readme.md: nodes of files whose name ends in
  \<open>_test.go\<close> are skipped first.
\<close>

definition HasSuffix :: "string \<Rightarrow> string \<Rightarrow> bool" where
  "HasSuffix s suffix =
     (length s \<ge> length suffix \<and> drop (length s - length suffix) s = suffix)"

definition runNode_readme :: "pass \<Rightarrow> node \<Rightarrow> diagnostic list" where
  "runNode_readme pass node =
     (if (case FileName pass node of None \<Rightarrow> False | Some name \<Rightarrow> HasSuffix name ''_test.go'')
      then []
      else
        (case node of
           StmtNode (AssignStmt lhs p tok rhs) \<Rightarrow>
             (case rhs of
                [CallExpr fn args] \<Rightarrow>
                  (case findReturnedError pass (AssignStmt lhs p tok rhs) (CallExpr fn args) of
                     None \<Rightarrow> []
                   | Some errIdent \<Rightarrow>
                       (let path = PathEnclosingInterval pass node in
                        if path = [] then []
                        else if isHandledInIfInit_readme pass errIdent path then []
                        else if \<not> isHandledInSubsequentStatement_readme pass errIdent path then
                          [Reportf (NamePos errIdent)
                             (''error '' @ quoted (Name errIdent)
                              @ '' is not checked or returned'')]
                        else []))
              | _ \<Rightarrow> [])
         | _ \<Rightarrow> []))"

definition run_readme :: "pass \<Rightarrow> diagnostic list" where
  "run_readme pass = concat (map (runNode_readme pass) (Preorder pass))"

section \<open>The assignments inside a statement\<close>

text \<open>
  All assignment statements in the tree of an expression or a statement, at any depth,
  the statement itself included. This is what the word "contains" means in the
  properties below; it does not depend on the analyzer.
\<close>

fun assignsInExpr :: "expr \<Rightarrow> stmt list"
  and assignsInStmt :: "stmt \<Rightarrow> stmt list" where
  "assignsInExpr (IdentExpr ident) = []"
| "assignsInExpr (BinaryExpr x op y) = assignsInExpr x @ assignsInExpr y"
| "assignsInExpr (CallExpr fn args) = assignsInExpr fn @ concat (map assignsInExpr args)"
| "assignsInExpr (SelectorExpr x sel) = assignsInExpr x"
| "assignsInExpr (FuncLit body) = assignsInStmt body"
| "assignsInExpr (OtherExpr es) = concat (map assignsInExpr es)"
| "assignsInStmt (AssignStmt lhs p tok rhs) =
     AssignStmt lhs p tok rhs
       # concat (map assignsInExpr lhs) @ concat (map assignsInExpr rhs)"
| "assignsInStmt (IfStmt p init cond body els) =
     (case init of None \<Rightarrow> [] | Some s \<Rightarrow> assignsInStmt s)
     @ assignsInExpr cond @ assignsInStmt body
     @ (case els of None \<Rightarrow> [] | Some s \<Rightarrow> assignsInStmt s)"
| "assignsInStmt (ReturnStmt p results) = concat (map assignsInExpr results)"
| "assignsInStmt (BlockStmt p list) = concat (map assignsInStmt list)"
| "assignsInStmt (CaseClause p list body) =
     concat (map assignsInExpr list) @ concat (map assignsInStmt body)"
| "assignsInStmt (CommClause p comm body) =
     (case comm of None \<Rightarrow> [] | Some s \<Rightarrow> assignsInStmt s)
     @ concat (map assignsInStmt body)"
| "assignsInStmt (OtherStmt p es ss) =
     concat (map assignsInExpr es) @ concat (map assignsInStmt ss)"

text \<open>An assignment one of whose left-hand sides is an identifier of the object.\<close>

fun rebinds :: "pass \<Rightarrow> object \<Rightarrow> stmt \<Rightarrow> bool" where
  "rebinds pass obj (AssignStmt lhs p tok rhs) =
     (\<exists>l \<in> set lhs. case l of
        IdentExpr ident \<Rightarrow> ObjectOf pass ident = Some obj
      | _ \<Rightarrow> False)"
| "rebinds pass obj _ = False"

text \<open>
  A statement contains a rebinding of the target when the target has an object and an
  assignment inside the statement rebinds that object.
\<close>

definition containsRebinding :: "pass \<Rightarrow> ident \<Rightarrow> stmt \<Rightarrow> bool" where
  "containsRebinding pass target s =
     (case ObjectOf pass target of
        None \<Rightarrow> False
      | Some obj \<Rightarrow> (\<exists>a \<in> set (assignsInStmt s). rebinds pass obj a))"

section \<open>Example programs\<close>

text \<open>
  The parenthesized function types \<^verbatim>\<open>(func() (error, int))\<close> and
  \<^verbatim>\<open>(func() (int, error))\<close>, as the callee of a conversion: a parenthesized
  expression around a function type, which names its result types.
\<close>

definition exFuncErrInt :: expr where
  "exFuncErrInt =
     OtherExpr [OtherExpr [IdentExpr (Ident ''error'' 5), IdentExpr (Ident ''int'' 6)]]"

definition exFuncIntErr :: expr where
  "exFuncIntErr =
     OtherExpr [OtherExpr [IdentExpr (Ident ''int'' 5), IdentExpr (Ident ''error'' 6)]]"

text \<open>
  The type facts of the examples: \<open>err\<close>, \<open>err2\<close>, \<open>errors\<close> and \<open>h\<close> are declared
  variables (so \<open>errors\<close> shadows the package), \<open>nil\<close> is the predeclared nil,
  \<open>mightFail\<close> returns \<open>(string, error)\<close> and \<open>twoErrors\<close> returns
  \<open>(error, error)\<close>. The type checker records for a type expression the type it
  denotes, so the type of each of the two parenthesized function types is its signature.
  The argument is the path of the one assignment the example looks at.
\<close>

definition exPass :: "node list \<Rightarrow> pass" where
  "exPass path =
     \<lparr>ObjectOf = (\<lambda>ident.
         if Name ident = ''err'' then Some (Declared 1)
         else if Name ident = ''err2'' then Some (Declared 2)
         else if Name ident = ''errors'' then Some (Declared 3)
         else if Name ident = ''h'' then Some (Declared 4)
         else if Name ident = ''nil'' then Some UniverseNil
         else None),
      TypeOf = (\<lambda>e.
         if e = exFuncErrInt then Some (Signature [TypeName ''error'', TypeName ''int''])
         else if e = exFuncIntErr then Some (Signature [TypeName ''int'', TypeName ''error''])
         else (case e of
           IdentExpr ident \<Rightarrow>
             if Name ident = ''mightFail'' then
               Some (Signature [TypeName ''string'', TypeName ''error''])
             else if Name ident = ''twoErrors'' then
               Some (Signature [TypeName ''error'', TypeName ''error''])
             else None
         | _ \<Rightarrow> None)),
      Implements = (\<lambda>t. t = TypeName ''error''),
      Preorder = take 1 path,
      PathEnclosingInterval = (\<lambda>node. path),
      FileName = (\<lambda>node. Some ''main.go'')\<rparr>"

text \<open>\<open>_, err = mightFail()\<close>\<close>

definition exCall :: expr where
  "exCall = CallExpr (IdentExpr (Ident ''mightFail'' 4)) []"

definition exAssign :: stmt where
  "exAssign =
     AssignStmt [IdentExpr (Ident ''_'' 1), IdentExpr (Ident ''err'' 2)] 3 ASSIGN [exCall]"

definition exErr :: ident where
  "exErr = Ident ''err'' 2"

text \<open>\<open>log()\<close>\<close>

definition exLog :: stmt where
  "exLog = OtherStmt 5 [CallExpr (IdentExpr (Ident ''log'' 5)) []] []"

text \<open>\<open>err = retry()\<close>, then \<open>if err != nil { err = retry() }\<close> and \<open>for { err = retry() }\<close>\<close>

definition exRetry :: stmt where
  "exRetry =
     AssignStmt [IdentExpr (Ident ''err'' 10)] 11 ASSIGN
       [CallExpr (IdentExpr (Ident ''retry'' 12)) []]"

definition exRetryIf :: stmt where
  "exRetryIf =
     IfStmt 6 None (BinaryExpr (IdentExpr (Ident ''err'' 7)) NEQ (IdentExpr (Ident ''nil'' 8)))
       (BlockStmt 9 [exRetry]) None"

definition exRetryLoop :: stmt where
  "exRetryLoop = OtherStmt 6 [] [BlockStmt 9 [exRetry]]"

text \<open>\<open>if err != nil { }\<close>\<close>

definition exCheck :: stmt where
  "exCheck =
     IfStmt 13 None (BinaryExpr (IdentExpr (Ident ''err'' 14)) NEQ (IdentExpr (Ident ''nil'' 15)))
       (BlockStmt 16 []) None"

text \<open>\<open>return x, err\<close>\<close>

definition exReturn :: stmt where
  "exReturn = ReturnStmt 30 [IdentExpr (Ident ''x'' 31), IdentExpr (Ident ''err'' 32)]"

text \<open>
  The path of \<open>exAssign\<close> as a statement of a function body with the statements
  \<open>list\<close>: the assignment, the body, the function declaration, the file.
\<close>

definition exPathInBody :: "stmt list \<Rightarrow> node list" where
  "exPathInBody list =
     [StmtNode exAssign, StmtNode (BlockStmt 0 list), OtherNode 100, OtherNode 101]"

text \<open>\<open>if _, err = mightFail(); err != nil { }\<close> as the only statement of a function body.\<close>

definition exIfInit :: stmt where
  "exIfInit =
     IfStmt 40 (Some exAssign)
       (BinaryExpr (IdentExpr (Ident ''err'' 41)) NEQ (IdentExpr (Ident ''nil'' 42)))
       (BlockStmt 43 []) None"

definition exPathIfInit :: "node list" where
  "exPathIfInit =
     [StmtNode exAssign, StmtNode exIfInit, StmtNode (BlockStmt 0 [exIfInit]),
      OtherNode 100, OtherNode 101]"

text \<open>
  \<open>switch x { case 1: body }\<close> followed by the statements \<open>after\<close> in a function
  body, and the path of \<open>exAssign\<close> as a statement of the clause body.
\<close>

definition exClause :: "stmt list \<Rightarrow> stmt" where
  "exClause body = CaseClause 22 [OtherExpr []] body"

definition exSwitch :: "stmt list \<Rightarrow> stmt" where
  "exSwitch body = OtherStmt 20 [IdentExpr (Ident ''x'' 20)] [BlockStmt 21 [exClause body]]"

definition exPathInClause :: "stmt list \<Rightarrow> stmt list \<Rightarrow> node list" where
  "exPathInClause body after =
     [StmtNode exAssign, StmtNode (exClause body), StmtNode (BlockStmt 21 [exClause body]),
      StmtNode (exSwitch body), StmtNode (BlockStmt 0 (exSwitch body # after)),
      OtherNode 100, OtherNode 101]"

text \<open>
  \<open>_, err2 = twoErrors()\<close>, \<open>_, s.err = twoErrors()\<close> and \<open>_, _ = mightFail()\<close>.
\<close>

definition exTwoErrors :: stmt where
  "exTwoErrors =
     AssignStmt [IdentExpr (Ident ''_'' 1), IdentExpr (Ident ''err2'' 2)] 3 ASSIGN
       [CallExpr (IdentExpr (Ident ''twoErrors'' 4)) []]"

definition exDiscardField :: stmt where
  "exDiscardField =
     AssignStmt [IdentExpr (Ident ''_'' 1),
                 SelectorExpr (IdentExpr (Ident ''s'' 2)) (Ident ''err'' 2)] 3 ASSIGN
       [CallExpr (IdentExpr (Ident ''twoErrors'' 4)) []]"

definition exDiscardAll :: stmt where
  "exDiscardAll =
     AssignStmt [IdentExpr (Ident ''_'' 1), IdentExpr (Ident ''_'' 2)] 3 ASSIGN [exCall]"

text \<open>
  The conversions \<^verbatim>\<open>h = (func() (error, int))(g)\<close> and
  \<^verbatim>\<open>h = (func() (int, error))(g)\<close> of a function \<open>g\<close> to its own type:
  each is an assignment with one call expression on the right, one left-hand side, and
  a callee whose type is a signature with two results.
\<close>

definition exConvErrInt :: stmt where
  "exConvErrInt =
     AssignStmt [IdentExpr (Ident ''h'' 1)] 3 ASSIGN
       [CallExpr exFuncErrInt [IdentExpr (Ident ''g'' 9)]]"

definition exConvIntErr :: stmt where
  "exConvIntErr =
     AssignStmt [IdentExpr (Ident ''h'' 1)] 3 ASSIGN
       [CallExpr exFuncIntErr [IdentExpr (Ident ''g'' 9)]]"

definition exPathOf :: "stmt \<Rightarrow> node list" where
  "exPathOf s = [StmtNode s, StmtNode (BlockStmt 0 [s]), OtherNode 100, OtherNode 101]"

text \<open>\<open>errors.Is(err, target)\<close>\<close>

definition exErrorsIs :: expr where
  "exErrorsIs =
     CallExpr (SelectorExpr (IdentExpr (Ident ''errors'' 50)) (Ident ''Is'' 51))
       [IdentExpr (Ident ''err'' 52), IdentExpr (Ident ''target'' 53)]"

text \<open>The passes of the examples, each with the path of its assignment.\<close>

definition passRetryIf :: pass where
  "passRetryIf = exPass (exPathInBody [exAssign, exLog, exRetryIf, exCheck])"

definition passRetryLoop :: pass where
  "passRetryLoop = exPass (exPathInBody [exAssign, exLog, exRetryLoop, exCheck])"

definition passReturn :: pass where
  "passReturn = exPass (exPathInBody [exAssign, exLog, exReturn])"

definition passIfInit :: pass where
  "passIfInit = exPass exPathIfInit"

definition passCheck :: pass where
  "passCheck = exPass (exPathInBody [exAssign, exCheck])"

definition passUnhandled :: pass where
  "passUnhandled = exPass (exPathInBody [exAssign, exLog])"

definition passClauseThenCheck :: pass where
  "passClauseThenCheck = exPass (exPathInClause [exAssign] [exCheck])"

definition passCheckInClause :: pass where
  "passCheckInClause = exPass (exPathInClause [exAssign, exCheck] [])"

definition passTwoErrors :: pass where
  "passTwoErrors = exPass (exPathOf exTwoErrors)"

definition passDiscardField :: pass where
  "passDiscardField = exPass (exPathOf exDiscardField)"

definition passConvErrInt :: pass where
  "passConvErrInt = exPass (exPathOf exConvErrInt)"

definition passDiscardAll :: pass where
  "passDiscardAll = exPass (exPathOf exDiscardAll)"

definition passConvIntErr :: pass where
  "passConvIntErr = exPass (exPathOf exConvIntErr)"

definition passReturnInClause :: pass where
  "passReturnInClause = exPass (exPathInClause [exAssign, exLog, exReturn] [])"

text \<open>The message of unnamed/part_000 and of readme.md for an identifier name.\<close>

definition notCheckedOrReturned :: "string \<Rightarrow> string" where
  "notCheckedOrReturned name =
     ''error '' @ [CHR 0x27] @ name @ [CHR 0x27] @ '' is not checked or returned''"

section \<open>Evaluation of the examples\<close>

lemmas ex_defs = exPass_def exCall_def exAssign_def exErr_def exLog_def exRetry_def exRetryIf_def
  exRetryLoop_def exCheck_def exReturn_def exPathInBody_def exIfInit_def exPathIfInit_def
  exClause_def exSwitch_def exPathInClause_def exTwoErrors_def exDiscardField_def
  exDiscardAll_def exConvErrInt_def exConvIntErr_def exFuncErrInt_def exFuncIntErr_def
  exPathOf_def exErrorsIs_def
  passRetryIf_def passRetryLoop_def passReturn_def passIfInit_def passCheck_def passUnhandled_def
  passClauseThenCheck_def passCheckInClause_def passReturnInClause_def passTwoErrors_def
  passDiscardField_def passDiscardAll_def passConvErrInt_def passConvIntErr_def
  notCheckedOrReturned_def

lemmas eval_simps = ex_defs findReturnedError_loop.simps runNode_def runNode_readme_def
  runNode_errcheckif_def isHandledInIfInit_def isHandledInIfInit_readme_def
  isHandledInSubsequentStatement_def isErrorHandled_def isIdentifierReassigned_def
  containsRebinding_def Reportf_def quoted_def HasSuffix_def Let_def

lemma exAssign_shape:
  "exAssign =
      AssignStmt [IdentExpr (Ident ''_'' 1), IdentExpr (Ident ''err'' 2)] 3 ASSIGN
        [CallExpr (IdentExpr (Ident ''mightFail'' 4)) []]"
  by (simp add: exAssign_def exCall_def)

lemma exAssign_tracked:
  "findReturnedError (exPass path) exAssign
      (CallExpr (IdentExpr (Ident ''mightFail'' 4)) []) = Some exErr"
  by (simp add: eval_simps)

section \<open>Reassignment is containment of a rebinding\<close>

lemma inspect_assigns:
  "inspectExpr pass obj e = (\<exists>a \<in> set (assignsInExpr e). rebinds pass obj a)"
  "inspectStmt pass obj s = (\<exists>a \<in> set (assignsInStmt s). rebinds pass obj a)"
proof (induction pass obj e and pass obj s rule: inspectExpr_inspectStmt.induct)
  case (7 pass targetObj lhs p tok rhs)
  have pt: "lhsIsTarget pass targetObj l
          = (case l of IdentExpr ident \<Rightarrow> ObjectOf pass ident = Some targetObj | _ \<Rightarrow> False)"
    for l
    by (cases l) auto
  have head: "list_ex (lhsIsTarget pass targetObj) lhs
          = rebinds pass targetObj (AssignStmt lhs p tok rhs)"
    by (simp add: list_ex_iff pt)
  show ?case
  proof (cases "list_ex (lhsIsTarget pass targetObj) lhs")
    case True
    with head have "rebinds pass targetObj (AssignStmt lhs p tok rhs)"
      by blast
    then show ?thesis
      using True by (simp del: rebinds.simps)
  next
    case False
    with head have no: "\<not> rebinds pass targetObj (AssignStmt lhs p tok rhs)"
      by blast
    have "list_ex (inspectExpr pass targetObj) lhs
            = (\<exists>e \<in> set lhs. \<exists>a \<in> set (assignsInExpr e). rebinds pass targetObj a)"
      using 7(1) [OF False] by (simp add: list_ex_iff)
    moreover have "list_ex (inspectExpr pass targetObj) rhs
            = (\<exists>e \<in> set rhs. \<exists>a \<in> set (assignsInExpr e). rebinds pass targetObj a)"
      using 7(2) [OF False] by (simp add: list_ex_iff)
    ultimately show ?thesis
      using False no by (simp del: rebinds.simps) blast
  qed
qed (auto simp: list_ex_iff split: option.splits)

lemma isIdentifierReassigned_iff:
  "isIdentifierReassigned pass s errIdent = containsRebinding pass errIdent s"
  by (simp add: isIdentifierReassigned_def containsRebinding_def inspect_assigns
      split: option.splits)

section \<open>The loops\<close>

lemma blockListLoop_found:
  "assign \<notin> set pre \<Longrightarrow>
   blockListLoop pass errIdent (StmtNode assign) (pre @ assign # post)
     = subsequentLoop pass errIdent post"
  by (induction pre) auto


lemma subsequentLoop_rebinding:
  "\<not> isStmtAValidHandler pass u errIdent \<Longrightarrow>
   \<not> isStmtAValidHandler pass r errIdent \<Longrightarrow>
   isIdentifierReassigned pass r errIdent \<Longrightarrow>
   subsequentLoop pass errIdent (u # r # post) = Some False"
  by auto

lemma pathLoop_first:
  "pathLoop pass errIdent None (StmtNode assign # rest)
     = pathLoop pass errIdent (Some (StmtNode assign)) rest"
  by (simp split: stmt.splits)

lemma pathLoop_block:
  "assign \<notin> set pre \<Longrightarrow>
   pathLoop pass errIdent None
     (StmtNode assign # StmtNode (BlockStmt bp (pre @ assign # post)) # outer)
   = (case subsequentLoop pass errIdent post of
        Some b \<Rightarrow> b
      | None \<Rightarrow>
          pathLoop pass errIdent (Some (StmtNode (BlockStmt bp (pre @ assign # post)))) outer)"
  by (simp only: pathLoop_first) (simp add: blockListLoop_found)

lemma isHandledInIfInit_block:
  "isHandledInIfInit pass errIdent (n # StmtNode (BlockStmt bp list) # outer) = False"
  by (simp add: isHandledInIfInit_def)

lemma stmtListLoop_readme_found:
  "assign \<notin> set pre \<Longrightarrow>
   stmtListLoop_readme pass errIdent (StmtNode assign) (pre @ assign # post)
     = Some (subsequentLoop_readme pass errIdent post = Some True)"
  by (induction pre) (auto split: option.splits)

lemma subsequentLoop_readme_handler:
  "\<forall>s \<in> set mid. \<not> isIdentifierReassigned pass s errIdent \<Longrightarrow>
   isStmtAValidHandler_readme pass h errIdent \<Longrightarrow>
   subsequentLoop_readme pass errIdent (mid @ h # post) = Some True"
  by (induction mid) auto


lemma all_from_split:
  "(\<forall>j. (i::nat) \<le> j \<and> R j \<longrightarrow> Q j)
     \<longleftrightarrow> ((R i \<longrightarrow> Q i) \<and> (\<forall>j. i + 1 \<le> j \<and> R j \<longrightarrow> Q j))"
proof -
  have "\<And>j. i \<le> j \<longleftrightarrow> j = i \<or> i + 1 \<le> j"
    by arith
  then show ?thesis
    by auto
qed

text \<open>
  The loop of \<open>findReturnedError\<close> returns nothing exactly when no error-capable result
  position from \<open>i\<close> on, inside the left-hand side, holds an identifier other than
  \<open>_\<close>.
\<close>

lemma findReturnedError_loop_None:
  "findReturnedError_loop pass results lhs i = None \<longleftrightarrow>
   (\<forall>j. i \<le> j \<and> (j < length results \<and> Implements pass (results ! j) \<and> j < length lhs)
      \<longrightarrow> (\<forall>ident. lhs ! j = IdentExpr ident \<longrightarrow> Name ident = ''_''))"
proof (induction pass results lhs i rule: findReturnedError_loop.induct)
  case (1 pass results lhs i)
  show ?case
  proof (cases "i < length results")
    case False
    then show ?thesis
      by (subst findReturnedError_loop.simps) auto
  next
    case True
    show ?thesis
      apply (subst findReturnedError_loop.simps)
      apply (subst all_from_split)
      using True 1
      apply (auto split: expr.splits)
      done
  qed
qed

lemma findReturnedError_None:
  assumes "assign = AssignStmt lhs p tok [CallExpr fn args]"
    and "TypeOf pass fn = Some (Signature results)"
    and "\<forall>i < length results. Implements pass (results ! i) \<longrightarrow> i < length lhs \<longrightarrow>
           (\<forall>ident. lhs ! i = IdentExpr ident \<longrightarrow> Name ident = ''_'')"
  shows "findReturnedError pass assign (CallExpr fn args) = None"
proof -
  have "findReturnedError_loop pass results lhs 0 = None"
    unfolding findReturnedError_loop_None using assms(3) by blast
  then show ?thesis
    by (simp add: assms(1,2))
qed

text \<open>
  The loop returns the identifier at the first error-capable result position, from
  \<open>i\<close> on and inside the left-hand side, that holds an identifier other than \<open>_\<close>.
\<close>

lemma namedIdent_iff:
  "namedIdent e = (\<exists>ident. e = IdentExpr ident \<and> Name ident \<noteq> ''_'')"
  by (cases e) auto

lemma findReturnedError_loop_None_named:
  "findReturnedError_loop pass results lhs i = None \<longleftrightarrow>
   (\<forall>j. i \<le> j \<and> j < length results \<and> Implements pass (results ! j) \<and> j < length lhs
      \<longrightarrow> \<not> namedIdent (lhs ! j))"
  unfolding findReturnedError_loop_None namedIdent_iff by blast

lemma findReturnedError_loop_skip:
  assumes "i < length results"
    and "Implements pass (results ! i) \<and> i < length lhs \<longrightarrow> \<not> namedIdent (lhs ! i)"
  shows "findReturnedError_loop pass results lhs i
           = findReturnedError_loop pass results lhs (i + 1)"
  using assms
  by (subst findReturnedError_loop.simps) (auto simp: namedIdent_iff split: expr.splits)

lemma findReturnedError_loop_hit:
  assumes "i < length results" "Implements pass (results ! i)" "i < length lhs"
    and "lhs ! i = IdentExpr ident" "Name ident \<noteq> ''_''"
  shows "findReturnedError_loop pass results lhs i = Some ident"
  using assms by (subst findReturnedError_loop.simps) simp

lemma findReturnedError_loop_Some:
  assumes "i \<le> k" "k < length results" "Implements pass (results ! k)" "k < length lhs"
    and "lhs ! k = IdentExpr ident" "Name ident \<noteq> ''_''"
    and "\<forall>j. i \<le> j \<and> j < k \<and> Implements pass (results ! j) \<and> j < length lhs
           \<longrightarrow> \<not> namedIdent (lhs ! j)"
  shows "findReturnedError_loop pass results lhs i = Some ident"
  using assms
proof (induction "k - i" arbitrary: i)
  case 0
  then have "i = k"
    by simp
  with 0 show ?case
    by (simp add: findReturnedError_loop_hit)
next
  case (Suc n)
  then have lt: "i < k"
    by simp
  then have "findReturnedError_loop pass results lhs i
               = findReturnedError_loop pass results lhs (i + 1)"
    using Suc.prems by (intro findReturnedError_loop_skip) auto
  moreover have "findReturnedError_loop pass results lhs (i + 1) = Some ident"
  proof (rule Suc.hyps(1))
    show "n = k - (i + 1)"
      using Suc.hyps(2) by simp
    show "i + 1 \<le> k"
      using lt by simp
    show "\<forall>j. i + 1 \<le> j \<and> j < k \<and> Implements pass (results ! j) \<and> j < length lhs
           \<longrightarrow> \<not> namedIdent (lhs ! j)"
      using Suc.prems(7) by auto
  qed (use Suc.prems in simp_all)
  ultimately show ?case
    by simp
qed

lemma findReturnedError_sig:
  assumes "assign = AssignStmt lhs p tok [CallExpr fn args]"
    and "TypeOf pass fn = Some (Signature results)"
  shows "findReturnedError pass assign (CallExpr fn args)
           = findReturnedError_loop pass results lhs 0"
proof (cases "results = []")
  case True
  then show ?thesis
    using assms by (simp add: findReturnedError_loop.simps)
next
  case False
  then show ?thesis
    using assms by simp
qed

section \<open>The callback of run\<close>

lemma runNode_tracked:
  assumes "assign = AssignStmt lhs p tok [CallExpr fn args]"
    and "findReturnedError pass assign (CallExpr fn args) = Some errIdent"
  shows "runNode pass (StmtNode assign) =
     (if PathEnclosingInterval pass (StmtNode assign) = [] then []
      else if isHandledInIfInit pass errIdent (PathEnclosingInterval pass (StmtNode assign))
      then []
      else if \<not> isHandledInSubsequentStatement pass errIdent
                  (PathEnclosingInterval pass (StmtNode assign))
      then
        [Reportf (NamePos errIdent)
           (''error '' @ quoted (Name errIdent) @ '' is not checked or returned'')]
      else [])"
  using assms by (simp add: runNode_def Let_def)

lemma runNode_untracked:
  assumes "assign = AssignStmt lhs p tok [CallExpr fn args]"
    and "findReturnedError pass assign (CallExpr fn args) = None"
  shows "runNode pass (StmtNode assign) = []"
  using assms by (simp add: runNode_def)

lemma isIdent_iff:
  "isIdent pass e target
     = (\<exists>ident. e = IdentExpr ident \<and> ObjectOf pass ident = ObjectOf pass target)"
  by (cases e) auto

lemma isNil_iff:
  "isNil pass e = (\<exists>ident. e = IdentExpr ident \<and> ObjectOf pass ident = Some UniverseNil)"
  by (cases e) auto

section \<open>Rebinding before the check\<close>

text \<open>
  The statement that holds the rebinding may itself be a handler: in
  \<^verbatim>\<open>_, err = mightFail(); log(); if err != nil { err = retry() }; if err != nil { }\<close>
  the third statement contains an assignment to \<open>err\<close>, and its own condition proves
  \<open>err\<close>. \<open>isStmtAValidHandler\<close> is asked before \<open>isIdentifierReassigned\<close>, so the
  scan ends there with success and nothing is reported for the first assignment.
\<close>

theorem rebinding_inside_handler_counterexample:
  "findReturnedError passRetryIf exAssign exCall = Some exErr
   \<and> PathEnclosingInterval passRetryIf (StmtNode exAssign)
       = [StmtNode exAssign, StmtNode (BlockStmt 0 [exAssign, exLog, exRetryIf, exCheck]),
          OtherNode 100, OtherNode 101]
   \<and> \<not> isStmtAValidHandler passRetryIf exLog exErr
   \<and> \<not> containsRebinding passRetryIf exErr exLog
   \<and> exRetry \<in> set (assignsInStmt exRetryIf)
   \<and> rebinds passRetryIf (Declared 1) exRetry
   \<and> containsRebinding passRetryIf exErr exRetryIf
   \<and> isStmtAValidHandler passRetryIf exCheck exErr
   \<and> runNode passRetryIf (StmtNode exAssign) = []"
  by (simp add: eval_simps)

text \<open>
  C1 (as amended). A tracked error is followed in its block by a statement that is not
  a handler, then by a statement that is not a handler either and contains, at any
  depth, an assignment that rebinds the declaration of the tracked identifier. Then the
  scan of the following statements ends at that statement with the answer false, whatever
  comes after it in the block (a proving if statement included) and whatever encloses
  the block, and exactly the diagnostic for the first assignment is reported.
\<close>

theorem rebinding_stops_scan:
  assumes assign: "assign = AssignStmt lhs p tok [CallExpr fn args]"
    and tracked: "findReturnedError pass assign (CallExpr fn args) = Some errIdent"
    and path: "PathEnclosingInterval pass (StmtNode assign) =
        StmtNode assign # StmtNode (BlockStmt bp (pre @ assign # u # r # post)) # outer"
    and first: "assign \<notin> set pre"
    and u: "\<not> isStmtAValidHandler pass u errIdent"
    and rebinding: "containsRebinding pass errIdent r"
    and r: "\<not> isStmtAValidHandler pass r errIdent"
  shows "subsequentLoop pass errIdent (u # r # post) = Some False \<and>
         runNode pass (StmtNode assign) =
           [\<lparr>Pos = NamePos errIdent,
             Message = ''error '' @ [CHR 0x27] @ Name errIdent @ [CHR 0x27]
                       @ '' is not checked or returned''\<rparr>]"
proof -
  have re: "isIdentifierReassigned pass r errIdent"
    using rebinding by (simp add: isIdentifierReassigned_iff)
  have scan: "subsequentLoop pass errIdent (u # r # post) = Some False"
    using u r re by (rule subsequentLoop_rebinding)
  have "\<not> isHandledInSubsequentStatement pass errIdent
          (StmtNode assign # StmtNode (BlockStmt bp (pre @ assign # u # r # post)) # outer)"
    unfolding isHandledInSubsequentStatement_def
    by (simp only: pathLoop_block [OF first] scan option.case simp_thms)
  then show ?thesis
    using scan
    by (simp add: runNode_tracked [OF assign tracked] path isHandledInIfInit_block
        Reportf_def quoted_def)
qed

theorem rebinding_stops_scan_witness:
  "containsRebinding passRetryLoop exErr exRetryLoop
   \<and> isStmtAValidHandler passRetryLoop exCheck exErr
   \<and> subsequentLoop passRetryLoop exErr [exLog, exRetryLoop, exCheck] = Some False
   \<and> runNode passRetryLoop (StmtNode exAssign)
       = [\<lparr>Pos = 2, Message = notCheckedOrReturned ''err''\<rparr>]"
proof -
  have tracked: "findReturnedError passRetryLoop exAssign
      (CallExpr (IdentExpr (Ident ''mightFail'' 4)) []) = Some exErr"
    unfolding passRetryLoop_def by (rule exAssign_tracked)
  have path: "PathEnclosingInterval passRetryLoop (StmtNode exAssign) =
      StmtNode exAssign
        # StmtNode (BlockStmt 0 ([] @ exAssign # exLog # exRetryLoop # [exCheck]))
        # [OtherNode 100, OtherNode 101]"
    by (simp add: passRetryLoop_def exPass_def exPathInBody_def)
  have first: "exAssign \<notin> set []"
    by simp
  have u: "\<not> isStmtAValidHandler passRetryLoop exLog exErr"
    by (simp add: exLog_def)
  have rebinding: "containsRebinding passRetryLoop exErr exRetryLoop"
    by (simp add: eval_simps)
  have r: "\<not> isStmtAValidHandler passRetryLoop exRetryLoop exErr"
    by (simp add: exRetryLoop_def)
  have chk: "isStmtAValidHandler passRetryLoop exCheck exErr"
    by (simp add: eval_simps)
  from rebinding_stops_scan [OF exAssign_shape tracked path first u rebinding r]
  show ?thesis
    using rebinding chk by (simp add: exErr_def notCheckedOrReturned_def)
qed

section \<open>Forwarding by return\<close>




section \<open>The if-initializer form\<close>

text \<open>
  C3. The error-producing assignment is the initializer of an if statement whose
  condition proves the tracked identifier. Then \<open>isHandledInIfInit\<close> holds and nothing is
  reported, whatever the rest of the path is: no statement after the assignment is
  looked at.
\<close>

theorem if_initializer_is_handled:
  assumes assign: "assign = AssignStmt lhs p tok [CallExpr fn args]"
    and tracked: "findReturnedError pass assign (CallExpr fn args) = Some errIdent"
    and path: "PathEnclosingInterval pass (StmtNode assign) =
        StmtNode assign # StmtNode (IfStmt ip (Some assign) cond body els) # outer"
    and cond: "checkCondition pass cond errIdent"
  shows "isHandledInIfInit pass errIdent (PathEnclosingInterval pass (StmtNode assign))
         \<and> runNode pass (StmtNode assign) = []"
  using cond by (simp add: runNode_tracked [OF assign tracked] path isHandledInIfInit_def)

theorem if_initializer_is_handled_witness:
  "isHandledInIfInit passIfInit exErr (PathEnclosingInterval passIfInit (StmtNode exAssign))
   \<and> runNode passIfInit (StmtNode exAssign) = []"
proof -
  have tracked: "findReturnedError passIfInit exAssign
      (CallExpr (IdentExpr (Ident ''mightFail'' 4)) []) = Some exErr"
    unfolding passIfInit_def by (rule exAssign_tracked)
  have path: "PathEnclosingInterval passIfInit (StmtNode exAssign) =
      StmtNode exAssign
        # StmtNode (IfStmt 40 (Some exAssign)
            (BinaryExpr (IdentExpr (Ident ''err'' 41)) NEQ (IdentExpr (Ident ''nil'' 42)))
            (BlockStmt 43 []) None)
        # [StmtNode (BlockStmt 0 [exIfInit]), OtherNode 100, OtherNode 101]"
    by (simp add: passIfInit_def exPass_def exPathIfInit_def exIfInit_def)
  have cond: "checkCondition passIfInit
      (BinaryExpr (IdentExpr (Ident ''err'' 41)) NEQ (IdentExpr (Ident ''nil'' 42))) exErr"
    by (simp add: passIfInit_def exPass_def exErr_def)
  show ?thesis
    by (rule if_initializer_is_handled [OF exAssign_shape tracked path cond])
qed

section \<open>Disjunction and conjunction\<close>

text \<open>
  C4. For \<open>checkCondition\<close> of errcheckif/errcheckif.go and unnamed/part_000: a
  disjunction proves the target exactly when one of its operands does, and a conjunction
  never proves it, whatever its operands are.
\<close>

theorem disjunction_followed_conjunction_opaque:
  "checkCondition pass (BinaryExpr a LOR b) target
     = (checkCondition pass a target \<or> checkCondition pass b target)
   \<and> checkCondition pass (BinaryExpr a LAND b) target = False"
  by simp

theorem disjunction_followed_conjunction_opaque_witness:
  "checkCondition passCheck
     (BinaryExpr (IdentExpr (Ident ''err'' 61)) NEQ (IdentExpr (Ident ''nil'' 62))) exErr
   \<and> checkCondition passCheck
     (BinaryExpr (IdentExpr (Ident ''ok'' 60)) LOR
        (BinaryExpr (IdentExpr (Ident ''err'' 61)) NEQ (IdentExpr (Ident ''nil'' 62)))) exErr
   \<and> \<not> checkCondition passCheck
     (BinaryExpr (IdentExpr (Ident ''ok'' 60)) LAND
        (BinaryExpr (IdentExpr (Ident ''err'' 61)) NEQ (IdentExpr (Ident ''nil'' 62)))) exErr"
proof -
  have "checkCondition passCheck
      (BinaryExpr (IdentExpr (Ident ''err'' 61)) NEQ (IdentExpr (Ident ''nil'' 62))) exErr"
    by (simp add: passCheck_def exPass_def exErr_def)
  then show ?thesis
    using disjunction_followed_conjunction_opaque [of passCheck "IdentExpr (Ident ''ok'' 60)"
        "BinaryExpr (IdentExpr (Ident ''err'' 61)) NEQ (IdentExpr (Ident ''nil'' 62))" exErr]
    by blast
qed

text \<open>
  The snapshot in readme.md differs here: its \<open>checkCondition\<close> follows \<open>&&\<close> into the
  operands as it follows \<open>||\<close>.
\<close>

lemma checkCondition_readme_conjunction:
  "checkCondition_readme pass (BinaryExpr a LAND b) target
     = (checkCondition_readme pass a target \<or> checkCondition_readme pass b target)"
  by simp

section \<open>Clause bodies\<close>




text \<open>
  The snapshot unnamed/part_000 goes on to the enclosing blocks, but knows block bodies
  only: a handler in the clause body itself is not found, one after the switch is.
\<close>

lemma clause_body_part_000:
  "runNode passCheckInClause (StmtNode exAssign)
     = [\<lparr>Pos = 2, Message = notCheckedOrReturned ''err''\<rparr>]
   \<and> runNode passClauseThenCheck (StmtNode exAssign) = []"
  by (simp add: eval_simps)

section \<open>Comparison with nil\<close>




section \<open>Discarded errors\<close>

text \<open>
  The loop of \<open>findReturnedError\<close> does not stop at the first error-capable result
  position: \<open>twoErrors\<close> returns \<open>(error, error)\<close>, and in
  \<^verbatim>\<open>_, err2 = twoErrors()\<close> the first error is discarded, yet \<open>err2\<close> is tracked
  and reported.
\<close>

theorem discard_at_first_error_position_counterexample:
  "TypeOf passTwoErrors (IdentExpr (Ident ''twoErrors'' 4))
       = Some (Signature [TypeName ''error'', TypeName ''error''])
   \<and> Implements passTwoErrors (TypeName ''error'')
   \<and> exTwoErrors =
       AssignStmt [IdentExpr (Ident ''_'' 1), IdentExpr (Ident ''err2'' 2)] 3 ASSIGN
         [CallExpr (IdentExpr (Ident ''twoErrors'' 4)) []]
   \<and> findReturnedError passTwoErrors exTwoErrors (CallExpr (IdentExpr (Ident ''twoErrors'' 4)) [])
       = Some (Ident ''err2'' 2)
   \<and> runNode passTwoErrors (StmtNode exTwoErrors)
       = [\<lparr>Pos = 2, Message = notCheckedOrReturned ''err2''\<rparr>]"
  by (simp add: eval_simps)

text \<open>
  C7 (as amended). The right-hand side is one call whose callee has a signature, \<open>k\<close>
  is the first error-capable result position, and the left-hand side at index \<open>k\<close> is
  the discard placeholder \<open>_\<close>. Then the detector returns no identifier exactly when
  no later error-capable result position has, at its index, a left-hand side that is an
  identifier other than \<open>_\<close>, and in that case nothing is reported for the assignment;
  otherwise the detector returns the identifier at the first such later position.
\<close>

theorem first_error_discarded:
  assumes assign: "assign = AssignStmt lhs p tok [CallExpr fn args]"
    and sig: "TypeOf pass fn = Some (Signature results)"
    and k: "k < length results" "Implements pass (results ! k)"
    and firstk: "\<forall>j < k. \<not> Implements pass (results ! j)"
    and discard: "k < length lhs" "lhs ! k = IdentExpr (Ident ''_'' pos)"
  shows "(findReturnedError pass assign (CallExpr fn args) = None \<longleftrightarrow>
            (\<forall>j. k < j \<and> j < length results \<and> Implements pass (results ! j) \<and> j < length lhs
               \<longrightarrow> \<not> namedIdent (lhs ! j)))
       \<and> (findReturnedError pass assign (CallExpr fn args) = None
            \<longrightarrow> runNode pass (StmtNode assign) = [])
       \<and> (\<forall>j ident.
            k < j \<and> j < length results \<and> Implements pass (results ! j) \<and> j < length lhs
            \<and> lhs ! j = IdentExpr ident \<and> Name ident \<noteq> ''_''
            \<and> (\<forall>i. k < i \<and> i < j \<and> Implements pass (results ! i) \<and> i < length lhs
                   \<longrightarrow> \<not> namedIdent (lhs ! i))
            \<longrightarrow> findReturnedError pass assign (CallExpr fn args) = Some ident)"
proof -
  have upto: "\<not> namedIdent (lhs ! j)" if "j \<le> k" "Implements pass (results ! j)" for j
  proof (cases "j = k")
    case True
    then show ?thesis
      using discard(2) by simp
  next
    case False
    with that firstk show ?thesis
      by simp
  qed
  have none: "findReturnedError pass assign (CallExpr fn args) = None \<longleftrightarrow>
            (\<forall>j. k < j \<and> j < length results \<and> Implements pass (results ! j) \<and> j < length lhs
               \<longrightarrow> \<not> namedIdent (lhs ! j))"
    unfolding findReturnedError_sig [OF assign sig] findReturnedError_loop_None_named
    using upto by (metis not_le_imp_less le0)
  have some: "findReturnedError pass assign (CallExpr fn args) = Some ident"
    if "k < j" "j < length results" "Implements pass (results ! j)" "j < length lhs"
      "lhs ! j = IdentExpr ident" "Name ident \<noteq> ''_''"
      "\<forall>i. k < i \<and> i < j \<and> Implements pass (results ! i) \<and> i < length lhs
                   \<longrightarrow> \<not> namedIdent (lhs ! i)"
    for j ident
    unfolding findReturnedError_sig [OF assign sig]
  proof (rule findReturnedError_loop_Some [where k = j])
    show "\<forall>i. 0 \<le> i \<and> i < j \<and> Implements pass (results ! i) \<and> i < length lhs
           \<longrightarrow> \<not> namedIdent (lhs ! i)"
      using that(7) upto by (metis not_le_imp_less)
  qed (use that in simp_all)
  show ?thesis
    using none some runNode_untracked [OF assign] by blast
qed

theorem first_error_discarded_witness:
  "findReturnedError passDiscardAll exDiscardAll (CallExpr (IdentExpr (Ident ''mightFail'' 4)) [])
     = None
   \<and> runNode passDiscardAll (StmtNode exDiscardAll) = []
   \<and> findReturnedError passDiscardField exDiscardField
       (CallExpr (IdentExpr (Ident ''twoErrors'' 4)) []) = None
   \<and> runNode passDiscardField (StmtNode exDiscardField) = []
   \<and> findReturnedError passTwoErrors exTwoErrors
       (CallExpr (IdentExpr (Ident ''twoErrors'' 4)) []) = Some (Ident ''err2'' 2)"
proof -
  let ?se = "[TypeName ''string'', TypeName ''error'']"
  let ?ee = "[TypeName ''error'', TypeName ''error'']"
  let ?all = "[IdentExpr (Ident ''_'' 1), IdentExpr (Ident ''_'' 2)]"
  let ?field = "[IdentExpr (Ident ''_'' 1),
                 SelectorExpr (IdentExpr (Ident ''s'' 2)) (Ident ''err'' 2)]"
  let ?two = "[IdentExpr (Ident ''_'' 1), IdentExpr (Ident ''err2'' 2)]"
  have a1: "exDiscardAll = AssignStmt ?all 3 ASSIGN
      [CallExpr (IdentExpr (Ident ''mightFail'' 4)) []]"
    by (simp add: exDiscardAll_def exCall_def)
  have s1: "TypeOf passDiscardAll (IdentExpr (Ident ''mightFail'' 4)) = Some (Signature ?se)"
    by (simp add: eval_simps)
  have k1: "1 < length ?se" "Implements passDiscardAll (?se ! 1)"
    "\<forall>j < 1. \<not> Implements passDiscardAll (?se ! j)"
    "1 < length ?all" "?all ! 1 = IdentExpr (Ident ''_'' 2)"
    by (simp_all add: eval_simps)
  have n1: "\<forall>j. 1 < j \<and> j < length ?se \<and> Implements passDiscardAll (?se ! j)
      \<and> j < length ?all \<longrightarrow> \<not> namedIdent (?all ! j)"
    by auto
  have a2: "exDiscardField = AssignStmt ?field 3 ASSIGN
      [CallExpr (IdentExpr (Ident ''twoErrors'' 4)) []]"
    by (simp add: exDiscardField_def)
  have s2: "TypeOf passDiscardField (IdentExpr (Ident ''twoErrors'' 4)) = Some (Signature ?ee)"
    by (simp add: eval_simps)
  have k2: "0 < length ?ee" "Implements passDiscardField (?ee ! 0)"
    "\<forall>j < 0. \<not> Implements passDiscardField (?ee ! j)"
    "0 < length ?field" "?field ! 0 = IdentExpr (Ident ''_'' 1)"
    by (simp_all add: eval_simps)
  have n2: "\<forall>j. 0 < j \<and> j < length ?ee \<and> Implements passDiscardField (?ee ! j)
      \<and> j < length ?field \<longrightarrow> \<not> namedIdent (?field ! j)"
    by (auto simp: less_Suc_eq)
  have a3: "exTwoErrors = AssignStmt ?two 3 ASSIGN
      [CallExpr (IdentExpr (Ident ''twoErrors'' 4)) []]"
    by (simp add: exTwoErrors_def)
  have s3: "TypeOf passTwoErrors (IdentExpr (Ident ''twoErrors'' 4)) = Some (Signature ?ee)"
    by (simp add: eval_simps)
  have k3: "0 < length ?ee" "Implements passTwoErrors (?ee ! 0)"
    "\<forall>j < 0. \<not> Implements passTwoErrors (?ee ! j)"
    "0 < length ?two" "?two ! 0 = IdentExpr (Ident ''_'' 1)"
    by (simp_all add: eval_simps)
  have h3: "0 < (1::nat) \<and> 1 < length ?ee \<and> Implements passTwoErrors (?ee ! 1)
      \<and> 1 < length ?two \<and> ?two ! 1 = IdentExpr (Ident ''err2'' 2)
      \<and> Name (Ident ''err2'' 2) \<noteq> ''_''
      \<and> (\<forall>i. 0 < i \<and> i < 1 \<and> Implements passTwoErrors (?ee ! i) \<and> i < length ?two
             \<longrightarrow> \<not> namedIdent (?two ! i))"
    by (simp add: eval_simps)
  show ?thesis
    using first_error_discarded [OF a1 s1 k1] n1
      first_error_discarded [OF a2 s2 k2] n2
      first_error_discarded [OF a3 s3 k3] h3
    by blast
qed

section \<open>The number of left-hand sides\<close>




section \<open>The diagnostic\<close>

text \<open>
  C9. For a tracked error with a path, when neither the if-initializer form nor the scan
  of the following statements proves the handling, \<open>run\<close> reports for the assignment
  exactly one diagnostic, at the position of the tracked identifier, with the message
  \<^verbatim>\<open>error '<name>' is not checked or returned\<close> for the name of the identifier.
\<close>

theorem unproven_error_is_reported_once:
  assumes assign: "assign = AssignStmt lhs p tok [CallExpr fn args]"
    and tracked: "findReturnedError pass assign (CallExpr fn args) = Some errIdent"
    and path: "PathEnclosingInterval pass (StmtNode assign) \<noteq> []"
    and init: "\<not> isHandledInIfInit pass errIdent (PathEnclosingInterval pass (StmtNode assign))"
    and scan: "\<not> isHandledInSubsequentStatement pass errIdent
                   (PathEnclosingInterval pass (StmtNode assign))"
  shows "runNode pass (StmtNode assign) =
           [\<lparr>Pos = NamePos errIdent,
             Message = ''error '' @ [CHR 0x27] @ Name errIdent @ [CHR 0x27]
                       @ '' is not checked or returned''\<rparr>]"
  using path init scan
  by (simp add: runNode_tracked [OF assign tracked] Reportf_def quoted_def)

theorem unproven_error_is_reported_once_witness:
  "runNode passUnhandled (StmtNode exAssign)
     = [\<lparr>Pos = 2, Message = ''error '' @ [CHR 0x27] @ ''err'' @ [CHR 0x27]
                               @ '' is not checked or returned''\<rparr>]"
proof -
  have tracked: "findReturnedError passUnhandled exAssign
      (CallExpr (IdentExpr (Ident ''mightFail'' 4)) []) = Some exErr"
    unfolding passUnhandled_def by (rule exAssign_tracked)
  have path: "PathEnclosingInterval passUnhandled (StmtNode exAssign) \<noteq> []"
    by (simp add: passUnhandled_def exPass_def exPathInBody_def)
  have init: "\<not> isHandledInIfInit passUnhandled exErr
      (PathEnclosingInterval passUnhandled (StmtNode exAssign))"
    by (simp add: eval_simps)
  have scan: "\<not> isHandledInSubsequentStatement passUnhandled exErr
      (PathEnclosingInterval passUnhandled (StmtNode exAssign))"
    by (simp add: eval_simps)
  from unproven_error_is_reported_once [OF exAssign_shape tracked path init scan]
  show ?thesis
    by (simp add: exErr_def)
qed

text \<open>
  \<open>run\<close> visits the nodes in the order of the inspector, and a visit of a node reports
  at most one diagnostic.
\<close>

lemma runNode_at_most_one:
  "length (runNode pass node) \<le> 1"
  by (simp add: runNode_def Let_def split: node.splits stmt.splits list.splits expr.splits
      option.splits)

text \<open>
  The older snapshot errcheckif/errcheckif.go has another message, no return handling
  and no if-initializer form; the snapshot in readme.md reports nothing for a file whose
  name ends in \<open>_test.go\<close>.
\<close>

lemma run_errcheckif_differs:
  "runNode_errcheckif passUnhandled (StmtNode exAssign)
     = [\<lparr>Pos = 2,
         Message = ''error '' @ [CHR 0x27] @ ''err'' @ [CHR 0x27] @ '' is not checked with ''
           @ [CHR 0x27] @ ''!= nil'' @ [CHR 0x27] @ '', '' @ [CHR 0x27] @ ''== nil'' @ [CHR 0x27]
           @ '', '' @ [CHR 0x27] @ ''errors.Is'' @ [CHR 0x27] @ '', or ''
           @ [CHR 0x27] @ ''errors.As'' @ [CHR 0x27]\<rparr>]
   \<and> runNode_errcheckif passReturn (StmtNode exAssign) \<noteq> []
   \<and> runNode_errcheckif passIfInit (StmtNode exAssign) \<noteq> []"
  by (simp add: eval_simps)

lemma run_readme_skips_test_files:
  "FileName pass node = Some name \<Longrightarrow> HasSuffix name ''_test.go''
   \<Longrightarrow> runNode_readme pass node = []"
  by (simp add: runNode_readme_def)

section \<open>The errors helpers\<close>

text \<open>
  C10. A call whose callee is a selector on an identifier proves the target exactly
  when the identifier is named \<open>errors\<close>, the selected name is \<open>Is\<close> or \<open>As\<close>, and
  the call has a first argument that is an identifier with the object of the target.
  The object of the qualifier plays no part: the call proves the target also where
  \<open>errors\<close> is a variable of the program.
\<close>

theorem errors_helper_matched_by_name:
  "checkCondition pass (CallExpr (SelectorExpr (IdentExpr pkgIdent) sel) args) target \<longleftrightarrow>
     Name pkgIdent = ''errors'' \<and> (Name sel = ''Is'' \<or> Name sel = ''As'')
     \<and> (\<exists>ident rest. args = IdentExpr ident # rest
           \<and> ObjectOf pass ident = ObjectOf pass target)"
  by (auto simp: isIdent_iff split: list.splits)

theorem errors_helper_matched_by_name_witness:
  "ObjectOf passCheck (Ident ''errors'' 50) = Some (Declared 3)
   \<and> checkCondition passCheck exErrorsIs exErr"
proof -
  have decl: "ObjectOf passCheck (Ident ''errors'' 50) = Some (Declared 3)"
    by (simp add: passCheck_def exPass_def)
  have arg: "ObjectOf passCheck (Ident ''err'' 52) = ObjectOf passCheck exErr"
    by (simp add: passCheck_def exPass_def exErr_def)
  have "checkCondition passCheck
      (CallExpr (SelectorExpr (IdentExpr (Ident ''errors'' 50)) (Ident ''Is'' 51))
         [IdentExpr (Ident ''err'' 52), IdentExpr (Ident ''target'' 53)]) exErr"
    unfolding errors_helper_matched_by_name using arg by simp
  then show ?thesis
    using decl by (simp add: exErrorsIs_def)
qed

section \<open>The same properties in the snapshot of readme.md\<close>

text \<open>
  In the snapshot kept in readme.md the statement list is the body of a block, of a
  case clause or of a select clause. Its classifier accepts every condition that the
  classifier of unnamed/part_000 accepts, and the properties of the scan hold for the
  three kinds of body.
\<close>

lemma checkCondition_readme_nil_comparison:
  assumes op: "op = NEQ \<or> op = EQL"
  shows "checkCondition_readme pass (BinaryExpr x op y) target \<longleftrightarrow>
           (\<exists>ident nilIdent.
              (x = IdentExpr ident \<and> y = IdentExpr nilIdent
               \<or> x = IdentExpr nilIdent \<and> y = IdentExpr ident)
              \<and> ObjectOf pass ident = ObjectOf pass target
              \<and> ObjectOf pass nilIdent = Some UniverseNil)"
  using op by (auto simp: isIdent_iff isNil_iff)

lemma checkCondition_implies_readme:
  "checkCondition pass cond target \<Longrightarrow> checkCondition_readme pass cond target"
  by (induction pass cond target rule: checkCondition.induct)
     (auto split: if_splits expr.splits list.splits)

lemma runNode_readme_tracked:
  assumes "assign = AssignStmt lhs p tok [CallExpr fn args]"
    and "findReturnedError pass assign (CallExpr fn args) = Some errIdent"
    and "\<not> (case FileName pass (StmtNode assign) of
               None \<Rightarrow> False
             | Some name \<Rightarrow> HasSuffix name ''_test.go'')"
  shows "runNode_readme pass (StmtNode assign) =
     (if PathEnclosingInterval pass (StmtNode assign) = [] then []
      else if isHandledInIfInit_readme pass errIdent
                (PathEnclosingInterval pass (StmtNode assign))
      then []
      else if \<not> isHandledInSubsequentStatement_readme pass errIdent
                  (PathEnclosingInterval pass (StmtNode assign))
      then
        [Reportf (NamePos errIdent)
           (''error '' @ quoted (Name errIdent) @ '' is not checked or returned'')]
      else [])"
  using assms by (simp add: runNode_readme_def Let_def)

lemma runNode_readme_cases:
  assumes "assign = AssignStmt lhs p tok [CallExpr fn args]"
    and "findReturnedError pass assign (CallExpr fn args) = Some errIdent"
    and "isHandledInSubsequentStatement_readme pass errIdent
           (PathEnclosingInterval pass (StmtNode assign))"
  shows "runNode_readme pass (StmtNode assign) = []"
  using assms by (simp add: runNode_readme_def Let_def)

lemma isHandledInIfInit_readme_list:
  "getStmtList parent = Some list \<Longrightarrow>
   isHandledInIfInit_readme pass errIdent (n # parent # outer) = False"
  by (erule getStmtList.elims) (simp_all add: isHandledInIfInit_readme_def)

lemma isHandledInSubsequentStatement_readme_list:
  "getStmtList parent = Some (pre @ assign # post) \<Longrightarrow> assign \<notin> set pre \<Longrightarrow>
   isHandledInSubsequentStatement_readme pass errIdent (StmtNode assign # parent # outer)
     = (subsequentLoop_readme pass errIdent post = Some True)"
  by (simp add: stmtListLoop_readme_found)

text \<open>
  A rebinding before the check, a forwarding return and a proving if statement, for a
  tracked error that is a statement of such a body.
\<close>

lemma readme_rebinding:
  assumes assign: "assign = AssignStmt lhs p tok [CallExpr fn args]"
    and tracked: "findReturnedError pass assign (CallExpr fn args) = Some errIdent"
    and notest: "\<not> (case FileName pass (StmtNode assign) of
               None \<Rightarrow> False
             | Some name \<Rightarrow> HasSuffix name ''_test.go'')"
    and path: "PathEnclosingInterval pass (StmtNode assign) = StmtNode assign # parent # outer"
    and list: "getStmtList parent = Some (pre @ assign # u # r # post)"
    and first: "assign \<notin> set pre"
    and u: "\<not> isStmtAValidHandler_readme pass u errIdent"
    and rebinding: "containsRebinding pass errIdent r"
    and r: "\<not> isStmtAValidHandler_readme pass r errIdent"
  shows "runNode_readme pass (StmtNode assign) =
           [\<lparr>Pos = NamePos errIdent,
             Message = ''error '' @ [CHR 0x27] @ Name errIdent @ [CHR 0x27]
                       @ '' is not checked or returned''\<rparr>]"
proof -
  have "subsequentLoop_readme pass errIdent (u # r # post) = Some False"
    using u r rebinding by (simp add: isIdentifierReassigned_iff)
  then have "\<not> isHandledInSubsequentStatement_readme pass errIdent
                (StmtNode assign # parent # outer)"
    unfolding isHandledInSubsequentStatement_readme_list [OF list first] by simp
  then show ?thesis
    by (simp add: runNode_readme_tracked [OF assign tracked notest] path
        isHandledInIfInit_readme_list [OF list] Reportf_def quoted_def)
qed

lemma readme_forwarding_return:
  assumes assign: "assign = AssignStmt lhs p tok [CallExpr fn args]"
    and tracked: "findReturnedError pass assign (CallExpr fn args) = Some errIdent"
    and path: "PathEnclosingInterval pass (StmtNode assign) = StmtNode assign # parent # outer"
    and list: "getStmtList parent = Some (pre @ assign # mid @ ReturnStmt rp results # post)"
    and first: "assign \<notin> set pre"
    and mid: "\<forall>s \<in> set mid. \<not> containsRebinding pass errIdent s"
    and ret: "IdentExpr retIdent \<in> set results"
      "ObjectOf pass retIdent = ObjectOf pass errIdent"
  shows "runNode_readme pass (StmtNode assign) = []"
proof -
  have "resultIsTarget pass errIdent (IdentExpr retIdent)"
    using ret(2) by simp
  then have h: "isStmtAValidHandler_readme pass (ReturnStmt rp results) errIdent"
    using ret(1) by (auto simp: list_ex_iff intro!: bexI [where x = "IdentExpr retIdent"])
  have mid': "\<forall>s \<in> set mid. \<not> isIdentifierReassigned pass s errIdent"
    using mid by (simp add: isIdentifierReassigned_iff)
  have "subsequentLoop_readme pass errIdent (mid @ ReturnStmt rp results # post) = Some True"
    using mid' h by (rule subsequentLoop_readme_handler)
  then have "isHandledInSubsequentStatement_readme pass errIdent
               (PathEnclosingInterval pass (StmtNode assign))"
    unfolding path isHandledInSubsequentStatement_readme_list [OF list first] .
  then show ?thesis
    by (rule runNode_readme_cases [OF assign tracked])
qed

lemma readme_proving_if:
  assumes assign: "assign = AssignStmt lhs p tok [CallExpr fn args]"
    and tracked: "findReturnedError pass assign (CallExpr fn args) = Some errIdent"
    and path: "PathEnclosingInterval pass (StmtNode assign) = StmtNode assign # parent # outer"
    and list: "getStmtList parent = Some (pre @ assign # IfStmt ip init cond body els # post)"
    and first: "assign \<notin> set pre"
    and cond: "checkCondition_readme pass cond errIdent"
  shows "runNode_readme pass (StmtNode assign) = []"
proof -
  have "subsequentLoop_readme pass errIdent (IfStmt ip init cond body els # post) = Some True"
    using cond by simp
  then have "isHandledInSubsequentStatement_readme pass errIdent
               (PathEnclosingInterval pass (StmtNode assign))"
    unfolding path isHandledInSubsequentStatement_readme_list [OF list first] .
  then show ?thesis
    by (rule runNode_readme_cases [OF assign tracked])
qed

end
